theory Spec2Isabelle
  imports Complex_Main
begin

section \<open>Data model of app.py\<close>

text \<open>
  The script reads two CSV files into pandas DataFrames and renders one page.
  Column labels of the source are Korean string literals; they are named here by a
  datatype (the source label is given in transliteration), with \<open>Other\<close> for any
  further column of the file:
  \<^item> \<open>BizNo\<close>: "sa-eop-ja-beon-ho" (business registration number),
  \<^item> \<open>FirmName\<close>: "eop-che-myeong" (entity name),
  \<^item> \<open>PRisk\<close>, \<open>PNormal\<close>, \<open>FinalJudgement\<close>, \<open>Explanation\<close>: "p_risk", "p_normal",
    "final_judgement", "explanation",
  \<^item> \<open>ShortfallExpected\<close>, \<open>ShortfallActual\<close>: "bu-jok-aek_ye-sang", "bu-jok-aek_sil-je",
  \<^item> \<open>BaseYear\<close>: "gi-jun-yeon-do" (reference year),
  \<^item> \<open>Reserve\<close>: "jeok-rip-geum", \<open>MinReserve\<close>: "choe-so-jeok-rip-geum(jeok-rip-gi-jun-aek)",
  \<^item> \<open>EvalReserveTotal\<close>: "pyeong-ga-jeok-rip-geum-hap-gye",
    \<open>ContinuingLiabilityReserve\<close>: "gye-sok-gi-jun-chaek-im-jun-bi-geum",
  \<^item> \<open>ContributionPaid\<close>: "bu-dam-geum-nap-ip-aek",
    \<open>ContributionAssessed\<close>: "bu-dam-geum-san-jeong-aek".
\<close>

datatype col =
    BizNo | FirmName | PRisk | PNormal | FinalJudgement | Explanation
  | ShortfallExpected | ShortfallActual
  | BaseYear | Reserve | MinReserve | EvalReserveTotal | ContinuingLiabilityReserve
  | ContributionPaid | ContributionAssessed
  | Other string

text \<open>
  A cell of a DataFrame. Numeric columns are float64 (or int64) in pandas: a finite
  number, an infinity, or NaN, which is also what \<open>read_csv\<close> gives for a blank cell.
  Finite numbers are exact rationals here: the rounding of binary64 arithmetic, the
  sign of zero and the wrap-around of int64 are not modelled. Text cells are \<open>Str\<close>.
\<close>

datatype cell = Num rat | PInf | NInf | NaN | Str string

text \<open>The exceptions the script can stop with; none is caught in app.py.\<close>

datatype error = KeyError col | TypeError | ValueError | OverflowError | ReError

text \<open>
  A row as \<open>result.iloc[0]\<close> yields it (a Series indexed by the column labels):
  \<open>c in row\<close> is \<open>c \<in> dom row\<close>, and \<open>row[c]\<close> raises KeyError outside the domain.
  A DataFrame keeps its column labels and its rows in file order.
\<close>

type_synonym row = "col \<rightharpoonup> cell"

record frame =
  columns :: "col list"
  rows :: "row list"

definition getitem :: "row \<Rightarrow> col \<Rightarrow> error + cell" where
  "getitem r c = (case r c of None \<Rightarrow> Inl (KeyError c) | Some v \<Rightarrow> Inr v)"

section \<open>Comparisons of a cell with a float literal\<close>

text \<open>
  \<open>v >= t\<close> and \<open>v > t\<close> for a finite literal \<open>t\<close>: every comparison with NaN is
  False, and comparing a str with a float raises TypeError.
\<close>

fun cell_ge :: "cell \<Rightarrow> rat \<Rightarrow> error + bool" where
  "cell_ge (Num a) t = Inr (a \<ge> t)"
| "cell_ge PInf t = Inr True"
| "cell_ge NInf t = Inr False"
| "cell_ge NaN t = Inr False"
| "cell_ge (Str s) t = Inl TypeError"

fun cell_gt :: "cell \<Rightarrow> rat \<Rightarrow> error + bool" where
  "cell_gt (Num a) t = Inr (a > t)"
| "cell_gt PInf t = Inr True"
| "cell_gt NInf t = Inr False"
| "cell_gt NaN t = Inr False"
| "cell_gt (Str s) t = Inl TypeError"

fun cell_lt :: "cell \<Rightarrow> rat \<Rightarrow> error + bool" where
  "cell_lt (Num a) t = Inr (a < t)"
| "cell_lt PInf t = Inr False"
| "cell_lt NInf t = Inr True"
| "cell_lt NaN t = Inr False"
| "cell_lt (Str s) t = Inl TypeError"

section \<open>Final judgement (70 percent threshold)\<close>

text \<open>
  The column \<open>final_judgement\<close> holds 0 for a risk entity and 1 for a normal one
  (the page shows the risk banner for 0 and the normal banner for 1).
\<close>

definition RISK :: int where
  "RISK = 0"

definition NORMAL :: int where
  "NORMAL = 1"

text \<open>\<^verbatim>\<open>lambda r: 0 if r["p_risk"] >= 0.7 else 1\<close>\<close>

definition final_judgement :: "row \<Rightarrow> error + int" where
  "final_judgement r =
     (case getitem r PRisk of
        Inl e \<Rightarrow> Inl e
      | Inr p \<Rightarrow>
         (case cell_ge p (7 / 10) of
            Inl e \<Rightarrow> Inl e
          | Inr b \<Rightarrow> Inr (if b then 0 else 1)))"

section \<open>Library functions of Python and pandas\<close>

text \<open>
  Three functions of the language and of pandas are taken as parameters, so that every
  theorem holds for whatever they compute:
  \<^item> \<open>str_contains pat\<close>: \<open>Series.str.contains(pat)\<close>, a regular expression search:
    \<open>None\<close> where \<open>pat\<close> does not compile (\<open>re.error\<close>), otherwise the test applied to
    each text of the column,
  \<^item> \<open>astype_str v\<close>: the text of a cell, as \<open>astype(str)\<close> and \<open>str()\<close> give it,
  \<^item> \<open>int_of_str s\<close>: \<open>int(s)\<close> on a str, \<open>None\<close> where it raises ValueError.
\<close>

record pylib =
  str_contains :: "string \<Rightarrow> (string \<Rightarrow> bool) option"
  astype_str :: "cell \<Rightarrow> string"
  int_of_str :: "string \<Rightarrow> int option"

text \<open>\<open>int(x)\<close> on a float discards the fraction (towards zero).\<close>

definition trunc :: "rat \<Rightarrow> int" where
  "trunc q = (if 0 \<le> q then \<lfloor>q\<rfloor> else \<lceil>q\<rceil>)"

fun py_int :: "pylib \<Rightarrow> cell \<Rightarrow> error + int" where
  "py_int L (Num q) = Inr (trunc q)"
| "py_int L PInf = Inl OverflowError"
| "py_int L NInf = Inl OverflowError"
| "py_int L NaN = Inl ValueError"
| "py_int L (Str s) = (case int_of_str L s of None \<Rightarrow> Inl ValueError | Some i \<Rightarrow> Inr i)"

text \<open>\<open>a - b\<close> on two cells; a str operand raises TypeError.\<close>

fun cell_sub :: "cell \<Rightarrow> cell \<Rightarrow> error + cell" where
  "cell_sub (Str s) b = Inl TypeError"
| "cell_sub a (Str s) = Inl TypeError"
| "cell_sub NaN b = Inr NaN"
| "cell_sub a NaN = Inr NaN"
| "cell_sub (Num a) (Num b) = Inr (Num (a - b))"
| "cell_sub (Num a) PInf = Inr NInf"
| "cell_sub (Num a) NInf = Inr PInf"
| "cell_sub PInf PInf = Inr NaN"
| "cell_sub PInf b = Inr PInf"
| "cell_sub NInf NInf = Inr NaN"
| "cell_sub NInf b = Inr NInf"

section \<open>Shortfall comparison (expected against actual)\<close>

text \<open>
  The three branches on \<open>diff\<close>: the error banner (actual larger than expected), the
  success banner (actual smaller), the info banner (both the same).
\<close>

datatype comparison = ACTUAL_EXCEEDS_EXPECTED | ACTUAL_BELOW_EXPECTED | EQUAL

text \<open>
  \<^verbatim>\<open>
  diff = row[actual] - row[expected]
  if diff > 0:   st.error(... int(diff) ...)
  elif diff < 0: st.success(... abs(int(diff)) ...)
  else:          st.info(...)
  \<close>
  The result is \<open>diff\<close>, the branch taken and the amount the banner shows.
\<close>

definition compare_shortfall ::
  "pylib \<Rightarrow> cell \<Rightarrow> cell \<Rightarrow> error + (cell \<times> comparison \<times> int option)" where
  "compare_shortfall L expected actual =
     (case cell_sub actual expected of
        Inl e \<Rightarrow> Inl e
      | Inr diff \<Rightarrow>
         (case cell_gt diff 0 of
            Inl e \<Rightarrow> Inl e
          | Inr positive \<Rightarrow>
             if positive then
               (case py_int L diff of
                  Inl e \<Rightarrow> Inl e
                | Inr n \<Rightarrow> Inr (diff, ACTUAL_EXCEEDS_EXPECTED, Some n))
             else
               (case cell_lt diff 0 of
                  Inl e \<Rightarrow> Inl e
                | Inr negative \<Rightarrow>
                   if negative then
                     (case py_int L diff of
                        Inl e \<Rightarrow> Inl e
                      | Inr n \<Rightarrow> Inr (diff, ACTUAL_BELOW_EXPECTED, Some \<bar>n\<bar>))
                   else Inr (diff, EQUAL, None))))"

section \<open>Rebalancing scenarios and monthly balances\<close>

text \<open>
  The keys of the dict \<open>scenarios\<close>, in insertion order: the conservative scenario
  (70 percent principal-guaranteed), the balanced one (50:50) and the aggressive one
  (70 percent non-principal).
\<close>

datatype scenario = Conservative | Balanced | Aggressive

definition scenarios :: "rat \<Rightarrow> (scenario \<times> rat \<times> rat) list" where
  "scenarios total_amt =
     [(Conservative, total_amt * (7 / 10), total_amt * (3 / 10)),
      (Balanced, total_amt * (5 / 10), total_amt * (5 / 10)),
      (Aggressive, total_amt * (3 / 10), total_amt * (7 / 10))]"

text \<open>\<open>months = list(range(1, 13))\<close>\<close>

definition months :: "nat list" where
  "months = [1..<13]"

text \<open>
  \<^verbatim>\<open>bal = principal_amt * (1 + 0.05 / 12) ** m + non_principal_amt * (1 + 0.10 / 12) ** m\<close>
\<close>

definition bal :: "rat \<Rightarrow> rat \<Rightarrow> nat \<Rightarrow> rat" where
  "bal principal_amt non_principal_amt m =
     principal_amt * (1 + (5 / 100) / 12) ^ m + non_principal_amt * (1 + (10 / 100) / 12) ^ m"

text \<open>
  The inner loop appends \<open>int(bal)\<close> for each month; the f-string then renders the
  integer with thousands separators and the currency suffix, which is display only.
\<close>

definition balances :: "rat \<Rightarrow> rat \<Rightarrow> int list" where
  "balances principal_amt non_principal_amt =
     foldl (\<lambda>bs m. bs @ [trunc (bal principal_amt non_principal_amt m)]) [] months"

text \<open>
  The table \<open>df_bal\<close>: the column of month numbers, then one column per scenario, added
  by the outer loop in the order of the dict.
\<close>

record balance_table =
  n_months :: "nat list"
  scenario_cols :: "(scenario \<times> int list) list"

definition df_bal :: "rat \<Rightarrow> balance_table" where
  "df_bal total_amt =
     foldl (\<lambda>t (name, principal_amt, non_principal_amt).
              t\<lparr>scenario_cols := scenario_cols t @ [(name, balances principal_amt non_principal_amt)]\<rparr>)
           \<lparr>n_months = months, scenario_cols = []\<rparr>
           (scenarios total_amt)"


text \<open>
  \<^verbatim>\<open>if row[expected] > 0:\<close> and the projection of \<open>total = row[expected]\<close>, written
  \<open>total_amt\<close> here. An infinite amount passes the test and fails at \<open>int(bal)\<close>.
\<close>

fun projection_of :: "cell \<Rightarrow> error + balance_table option" where
  "projection_of (Num total_amt) = Inr (if total_amt > 0 then Some (df_bal total_amt) else None)"
| "projection_of PInf = Inl OverflowError"
| "projection_of NInf = Inr None"
| "projection_of NaN = Inr None"
| "projection_of (Str s) = Inl TypeError"

section \<open>The shortfall section of the detail view\<close>

text \<open>
  Lines 95 to 137: entered when both shortfall columns are in the row; the two metrics
  show \<open>int\<close> of each amount, then come the comparison and, for a positive expected
  shortfall, the projection. \<open>None\<close> is the section left out.
\<close>

record shortfall_view =
  expected_shown :: int
  actual_shown :: int
  diff :: cell
  compared :: comparison
  diff_shown :: "int option"
  projection :: "balance_table option"

definition shortfall_section :: "pylib \<Rightarrow> row \<Rightarrow> error + shortfall_view option" where
  "shortfall_section L row =
     (case (row ShortfallExpected, row ShortfallActual) of
        (Some expected, Some actual) \<Rightarrow>
          (case py_int L expected of
             Inl e \<Rightarrow> Inl e
           | Inr ie \<Rightarrow>
          (case py_int L actual of
             Inl e \<Rightarrow> Inl e
           | Inr ia \<Rightarrow>
          (case compare_shortfall L expected actual of
             Inl e \<Rightarrow> Inl e
           | Inr (d, c, n) \<Rightarrow>
          (case projection_of expected of
             Inl e \<Rightarrow> Inl e
           | Inr p \<Rightarrow>
              Inr (Some \<lparr>expected_shown = ie, actual_shown = ia, diff = d,
                         compared = c, diff_shown = n, projection = p\<rparr>)))))
      | _ \<Rightarrow> Inr None)"

section \<open>Yearly indicator trend\<close>

text \<open>
  An element-wise operation over the rows of a frame stops at the first row that
  raises.
\<close>

fun traverse :: "('a \<Rightarrow> error + 'b) \<Rightarrow> 'a list \<Rightarrow> error + 'b list" where
  "traverse f [] = Inr []"
| "traverse f (x # xs) =
     (case f x of
        Inl e \<Rightarrow> Inl e
      | Inr y \<Rightarrow> (case traverse f xs of Inl e \<Rightarrow> Inl e | Inr ys \<Rightarrow> Inr (y # ys)))"

text \<open>
  \<^verbatim>\<open>raw[year] = raw[year].astype(str).str[:4].astype(int)\<close> in \<open>load_raw_data\<close>; the
  argument is the CSV file as \<open>read_csv\<close> returns it.
\<close>

definition load_raw_data :: "pylib \<Rightarrow> frame \<Rightarrow> error + frame" where
  "load_raw_data L raw =
     (if BaseYear \<notin> set (columns raw) then Inl (KeyError BaseYear)
      else
        (case traverse
                (\<lambda>r. case r BaseYear of
                       None \<Rightarrow> Inl (KeyError BaseYear)
                     | Some y \<Rightarrow>
                        (case int_of_str L (take 4 (astype_str L y)) of
                           None \<Rightarrow> Inl ValueError
                         | Some n \<Rightarrow> Inr (r(BaseYear \<mapsto> Num (of_int n)))))
                (rows raw) of
           Inl e \<Rightarrow> Inl e
         | Inr rs \<Rightarrow> Inr (raw\<lparr>rows := rs\<rparr>)))"

text \<open>
  Element-wise \<open>==\<close> of pandas: NaN equals nothing, itself included; cells of different
  kinds are unequal.
\<close>

definition cell_eq :: "cell \<Rightarrow> cell \<Rightarrow> bool" where
  "cell_eq a b = (a \<noteq> NaN \<and> a = b)"

text \<open>\<open>df[df[c] == v]\<close>: the rows whose cell in column \<open>c\<close> equals \<open>v\<close>, in the order of \<open>df\<close>.\<close>

definition select_eq :: "frame \<Rightarrow> col \<Rightarrow> cell \<Rightarrow> error + frame" where
  "select_eq df c v =
     (if c \<notin> set (columns df) then Inl (KeyError c)
      else Inr (df\<lparr>rows := filter (\<lambda>r. case r c of None \<Rightarrow> False | Some x \<Rightarrow> cell_eq x v)
                                  (rows df)\<rparr>))"

text \<open>
  \<^verbatim>\<open>
  if bizno in row: firm_data = raw_df[raw_df[bizno] == row[bizno]].copy()
  else:            firm_data = raw_df[raw_df[name] == row[name]].copy()
  \<close>
\<close>

definition firm_data :: "frame \<Rightarrow> row \<Rightarrow> error + frame" where
  "firm_data raw_df row =
     (if BizNo \<in> dom row then
        (case getitem row BizNo of Inl e \<Rightarrow> Inl e | Inr v \<Rightarrow> select_eq raw_df BizNo v)
      else
        (case getitem row FirmName of Inl e \<Rightarrow> Inl e | Inr v \<Rightarrow> select_eq raw_df FirmName v))"

text \<open>
  \<open>a / b\<close> of two numeric columns, cell by cell: pandas raises nothing for a zero
  denominator and gives an infinity, or NaN for 0 / 0; a str operand raises TypeError.
\<close>

fun cell_div :: "cell \<Rightarrow> cell \<Rightarrow> error + cell" where
  "cell_div (Str s) b = Inl TypeError"
| "cell_div a (Str s) = Inl TypeError"
| "cell_div NaN b = Inr NaN"
| "cell_div a NaN = Inr NaN"
| "cell_div (Num a) (Num b) =
     Inr (if b \<noteq> 0 then Num (a / b) else if 0 < a then PInf else if a < 0 then NInf else NaN)"
| "cell_div (Num a) b = Inr (Num 0)"
| "cell_div PInf (Num b) = Inr (if 0 \<le> b then PInf else NInf)"
| "cell_div NInf (Num b) = Inr (if 0 \<le> b then NInf else PInf)"
| "cell_div a b = Inr NaN"

definition div_columns :: "frame \<Rightarrow> col \<Rightarrow> col \<Rightarrow> error + cell list" where
  "div_columns df a b =
     (if a \<notin> set (columns df) then Inl (KeyError a)
      else if b \<notin> set (columns df) then Inl (KeyError b)
      else traverse (\<lambda>r. case getitem r a of
                            Inl e \<Rightarrow> Inl e
                          | Inr x \<Rightarrow> (case getitem r b of Inl e \<Rightarrow> Inl e | Inr y \<Rightarrow> cell_div x y))
                    (rows df))"

text \<open>
  Lines 170 to 174: the three ratio columns are computed one after the other, and
  \<open>chart_df\<close> keeps the year (its index) and the three ratios of every row of
  \<open>firm_data\<close>: reserve ratio, compliance ratio, payment fulfilment ratio.
\<close>

definition chart_df :: "frame \<Rightarrow> error + (cell \<times> cell \<times> cell \<times> cell) list" where
  "chart_df fd =
     (case div_columns fd Reserve MinReserve of
        Inl e \<Rightarrow> Inl e
      | Inr reserve_ratio \<Rightarrow>
     (case div_columns fd EvalReserveTotal ContinuingLiabilityReserve of
        Inl e \<Rightarrow> Inl e
      | Inr compliance_ratio \<Rightarrow>
     (case div_columns fd ContributionPaid ContributionAssessed of
        Inl e \<Rightarrow> Inl e
      | Inr payment_ratio \<Rightarrow>
     (if BaseYear \<notin> set (columns fd) then Inl (KeyError BaseYear)
      else
        (case traverse (\<lambda>r. getitem r BaseYear) (rows fd) of
           Inl e \<Rightarrow> Inl e
         | Inr years \<Rightarrow>
            Inr (zip years (zip reserve_ratio (zip compliance_ratio payment_ratio))))))))"

text \<open>
  Lines 162 to 178: the line chart of \<open>chart_df\<close>, or the warning that the entity has
  no yearly data.
\<close>

datatype trend = NoData | Chart "(cell \<times> cell \<times> cell \<times> cell) list"

definition trend_section :: "pylib \<Rightarrow> frame \<Rightarrow> row \<Rightarrow> error + trend" where
  "trend_section L raw row =
     (case load_raw_data L raw of
        Inl e \<Rightarrow> Inl e
      | Inr raw_df \<Rightarrow>
         (case firm_data raw_df row of
            Inl e \<Rightarrow> Inl e
          | Inr fd \<Rightarrow>
             if rows fd \<noteq> [] then
               (case chart_df fd of Inl e \<Rightarrow> Inl e | Inr c \<Rightarrow> Inr (Chart c))
             else Inr NoData))"

section \<open>The detail view of one row\<close>

text \<open>\<open>f"{x:.1%}"\<close> raises ValueError for a str, and renders every float.\<close>

fun percent :: "cell \<Rightarrow> error + cell" where
  "percent (Str s) = Inl ValueError"
| "percent x = Inr x"

record detail_view =
  title :: "cell \<times> cell"
  p_risk_shown :: cell
  p_normal_shown :: cell
  risk_banner :: bool
  shortfall :: "shortfall_view option"
  explanation :: "cell option"
  trend_chart :: trend

text \<open>
  Lines 76 to 178 for \<open>row = result.iloc[0]\<close>: the title (name and registration number),
  the two probabilities, the verdict banner, the shortfall section, the explanation of
  a risk verdict (the cell whose text the page splits into lines) and the trend.
\<close>

definition detail :: "pylib \<Rightarrow> frame \<Rightarrow> row \<Rightarrow> error + detail_view" where
  "detail L raw row =
     (case getitem row FirmName of Inl e \<Rightarrow> Inl e | Inr name \<Rightarrow>
     (case getitem row BizNo of Inl e \<Rightarrow> Inl e | Inr bizno \<Rightarrow>
     (case getitem row PRisk of Inl e \<Rightarrow> Inl e | Inr p_risk \<Rightarrow>
     (case percent p_risk of Inl e \<Rightarrow> Inl e | Inr pr \<Rightarrow>
     (case getitem row PNormal of Inl e \<Rightarrow> Inl e | Inr p_normal \<Rightarrow>
     (case percent p_normal of Inl e \<Rightarrow> Inl e | Inr pn \<Rightarrow>
     (case getitem row FinalJudgement of Inl e \<Rightarrow> Inl e | Inr fj \<Rightarrow>
     (case shortfall_section L row of Inl e \<Rightarrow> Inl e | Inr sf \<Rightarrow>
     (case (if cell_eq fj (Num 0)
            then (case getitem row Explanation of Inl e \<Rightarrow> Inl e | Inr x \<Rightarrow> Inr (Some x))
            else Inr None) of Inl e \<Rightarrow> Inl e | Inr ex \<Rightarrow>
     (case trend_section L raw row of Inl e \<Rightarrow> Inl e | Inr tr \<Rightarrow>
        Inr \<lparr>title = (name, bizno), p_risk_shown = pr, p_normal_shown = pn,
             risk_banner = cell_eq fj (Num 0), shortfall = sf, explanation = ex,
             trend_chart = tr\<rparr>))))))))))"

section \<open>The page\<close>

text \<open>
  Lines 34 to 42: a non-empty search text keeps the rows whose registration number or
  name, as text, contains it; an empty one keeps every row.
\<close>

definition search :: "pylib \<Rightarrow> frame \<Rightarrow> string \<Rightarrow> error + frame" where
  "search L df company =
     (if company \<noteq> [] then
        (if BizNo \<notin> set (columns df) then Inl (KeyError BizNo)
         else
           (case str_contains L company of
              None \<Rightarrow> Inl ReError
            | Some contains \<Rightarrow>
               if FirmName \<notin> set (columns df) then Inl (KeyError FirmName)
               else
                 Inr (df\<lparr>rows :=
                        filter (\<lambda>r. (case r BizNo of None \<Rightarrow> False
                                      | Some v \<Rightarrow> contains (astype_str L v))
                                   \<or> (case r FirmName of None \<Rightarrow> False
                                      | Some v \<Rightarrow> contains (astype_str L v)))
                               (rows df)\<rparr>)))
      else Inr df)"

text \<open>
  Lines 47 to 49: the column \<open>final_judgement\<close> is attached to every row, and the first
  row that raises stops the script. On a frame without rows no row is judged: pandas
  only probes the lambda on a dummy row and discards what that raises.
\<close>

definition add_final_judgement :: "frame \<Rightarrow> error + frame" where
  "add_final_judgement result =
     (case traverse (\<lambda>r. case final_judgement r of
                            Inl e \<Rightarrow> Inl e
                          | Inr j \<Rightarrow> Inr (r(FinalJudgement \<mapsto> Num (of_int j))))
                    (rows result) of
        Inl e \<Rightarrow> Inl e
      | Inr rs \<Rightarrow>
         Inr \<lparr>columns = (if FinalJudgement \<in> set (columns result) then columns result
                          else columns result @ [FinalJudgement]),
              rows = rs\<rparr>)"

text \<open>Lines 59 to 61: the checkbox keeps the rows judged 0.\<close>

definition risk_only :: "bool \<Rightarrow> frame \<Rightarrow> frame" where
  "risk_only show_risk_only result =
     (if show_risk_only then
        result\<lparr>rows := filter (\<lambda>r. case r FinalJudgement of None \<Rightarrow> False
                                    | Some v \<Rightarrow> cell_eq v (Num 0))
                               (rows result)\<rparr>
      else result)"

text \<open>Lines 34 to 61 together: the table \<open>result\<close> that the page shows.\<close>

definition result_table :: "pylib \<Rightarrow> frame \<Rightarrow> string \<Rightarrow> bool \<Rightarrow> error + frame" where
  "result_table L df company show_risk_only =
     (case search L df company of
        Inl e \<Rightarrow> Inl e
      | Inr found \<Rightarrow>
         (case add_final_judgement found of
            Inl e \<Rightarrow> Inl e
          | Inr judged \<Rightarrow> Inr (risk_only show_risk_only judged)))"

text \<open>
  Lines 65 to 70: the shown columns; \<open>result[show_cols]\<close> raises KeyError when one of
  them is not a column of \<open>result\<close>.
\<close>

definition show_cols :: "frame \<Rightarrow> error + col list" where
  "show_cols result =
     (let cols = [BizNo, FirmName, PRisk, PNormal, FinalJudgement]
                 @ filter (\<lambda>c. c \<in> set (columns result)) [ShortfallExpected, ShortfallActual]
      in case filter (\<lambda>c. c \<notin> set (columns result)) cols of
           [] \<Rightarrow> Inr cols
         | c # _ \<Rightarrow> Inl (KeyError c))"

record page =
  shown_cols :: "col list"
  shown_rows :: "row list"
  detail_of :: "detail_view option"

text \<open>
  The whole script for the prediction file \<open>df\<close>, the yearly file \<open>raw\<close>, the search text
  and the checkbox. The detail view is built for \<open>result.iloc[0]\<close> when \<open>result\<close> has a
  row (\<open>result.empty\<close> is false). The warning of an empty search and the three counts
  of lines 52 to 56 are shown and used nowhere else; they are left out of the page.
\<close>

definition app :: "pylib \<Rightarrow> frame \<Rightarrow> frame \<Rightarrow> string \<Rightarrow> bool \<Rightarrow> error + page" where
  "app L df raw company show_risk_only =
     (case result_table L df company show_risk_only of
        Inl e \<Rightarrow> Inl e
      | Inr result \<Rightarrow>
         (case show_cols result of
            Inl e \<Rightarrow> Inl e
          | Inr cols \<Rightarrow>
             (case rows result of
                [] \<Rightarrow> Inr \<lparr>shown_cols = cols, shown_rows = [], detail_of = None\<rparr>
              | row # others \<Rightarrow>
                 (case detail L raw row of
                    Inl e \<Rightarrow> Inl e
                  | Inr d \<Rightarrow>
                     Inr \<lparr>shown_cols = cols, shown_rows = row # others, detail_of = Some d\<rparr>))))"

section \<open>Example data\<close>

text \<open>
  A concrete instance of the library parameters and two small files, on which the
  model is evaluated below: a plain substring search, the text of a text cell, and
  \<open>int\<close> on the three year texts of the example.
\<close>

fun has_substring :: "string \<Rightarrow> string \<Rightarrow> bool" where
  "has_substring pat [] = (pat = [])"
| "has_substring pat (c # s) = (take (length pat) (c # s) = pat \<or> has_substring pat s)"

definition example_lib :: pylib where
  "example_lib =
     \<lparr>str_contains = (\<lambda>pat. Some (has_substring pat)),
      astype_str = (\<lambda>v. case v of Str s \<Rightarrow> s | _ \<Rightarrow> ''nan''),
      int_of_str = map_of [(''2014'', 2014), (''2015'', 2015), (''2016'', 2016)]\<rparr>"

definition example_year :: "string \<Rightarrow> string \<Rightarrow> cell \<Rightarrow> rat \<Rightarrow> rat \<Rightarrow> row" where
  "example_year bizno name year numerator denominator =
     [BizNo \<mapsto> Str bizno, FirmName \<mapsto> Str name,
      Reserve \<mapsto> Num numerator, MinReserve \<mapsto> Num denominator,
      EvalReserveTotal \<mapsto> Num numerator, ContinuingLiabilityReserve \<mapsto> Num 100,
      ContributionPaid \<mapsto> Num 5, ContributionAssessed \<mapsto> Num 5, BaseYear \<mapsto> year]"

text \<open>The yearly file as read, the rows of entity 101 in the order 2016, 2014, 2015.\<close>

definition example_raw :: frame where
  "example_raw =
     \<lparr>columns = [BizNo, FirmName, BaseYear, Reserve, MinReserve, EvalReserveTotal,
                 ContinuingLiabilityReserve, ContributionPaid, ContributionAssessed],
      rows = [example_year ''101'' ''Alpha'' (Str ''2016-12-31'') 90 100,
              example_year ''202'' ''Beta'' (Str ''2016-12-31'') 10 100,
              example_year ''101'' ''Alpha'' (Str ''2014-12-31'') 50 100,
              example_year ''101'' ''Alpha'' (Str ''2015-12-31'') 70 0]\<rparr>"

text \<open>The same file after \<open>load_raw_data\<close>, the rows of entity 101 in it, and their chart.\<close>

definition example_raw_df :: frame where
  "example_raw_df =
     example_raw\<lparr>rows := [example_year ''101'' ''Alpha'' (Num 2016) 90 100,
                           example_year ''202'' ''Beta'' (Num 2016) 10 100,
                           example_year ''101'' ''Alpha'' (Num 2014) 50 100,
                           example_year ''101'' ''Alpha'' (Num 2015) 70 0]\<rparr>"

definition example_fd :: frame where
  "example_fd =
     example_raw\<lparr>rows := [example_year ''101'' ''Alpha'' (Num 2016) 90 100,
                           example_year ''101'' ''Alpha'' (Num 2014) 50 100,
                           example_year ''101'' ''Alpha'' (Num 2015) 70 0]\<rparr>"

definition example_chart :: "(cell \<times> cell \<times> cell \<times> cell) list" where
  "example_chart =
     [(Num 2016, Num (9 / 10), Num (9 / 10), Num 1),
      (Num 2014, Num (1 / 2), Num (1 / 2), Num 1),
      (Num 2015, PInf, Num (7 / 10), Num 1)]"

text \<open>The prediction file, and the table of a search for "Alpha" in it.\<close>

definition example_row :: "string \<Rightarrow> string \<Rightarrow> rat \<Rightarrow> rat \<Rightarrow> rat \<Rightarrow> row" where
  "example_row bizno name p_risk expected actual =
     [BizNo \<mapsto> Str bizno, FirmName \<mapsto> Str name, PRisk \<mapsto> Num p_risk,
      PNormal \<mapsto> Num (1 - p_risk), Explanation \<mapsto> Str ''reserve ratio below minimum'',
      ShortfallExpected \<mapsto> Num expected, ShortfallActual \<mapsto> Num actual]"

definition example_df :: frame where
  "example_df =
     \<lparr>columns = [BizNo, FirmName, PRisk, PNormal, Explanation, ShortfallExpected,
                 ShortfallActual],
      rows = [example_row ''202'' ''Beta'' (1 / 5) 0 0,
              example_row ''101'' ''Alpha'' (9 / 10) 1000 1500,
              example_row ''303'' ''Alphabet'' (4 / 5) 10 5]\<rparr>"

definition example_result :: frame where
  "example_result =
     \<lparr>columns = columns example_df @ [FinalJudgement],
      rows = [(example_row ''101'' ''Alpha'' (9 / 10) 1000 1500)(FinalJudgement \<mapsto> Num 0),
              (example_row ''303'' ''Alphabet'' (4 / 5) 10 5)(FinalJudgement \<mapsto> Num 0)]\<rparr>"

lemmas example_defs =
  example_lib_def example_year_def example_raw_def example_raw_df_def example_fd_def
  example_chart_def example_row_def example_df_def

lemmas trend_defs =
  trend_section_def load_raw_data_def firm_data_def select_eq_def chart_df_def
  div_columns_def getitem_def cell_eq_def

section \<open>Auxiliary lemmas\<close>








lemma compare_shortfall_Num:
  "\<exists>c n. compare_shortfall L (Num e) (Num a) = Inr (Num (a - e), c, n)"
  by (simp add: compare_shortfall_def)

lemma shortfall_section_Num:
  assumes "row ShortfallExpected = Some (Num e)" and "row ShortfallActual = Some (Num a)"
  shows "\<exists>v. shortfall_section L row = Inr (Some v) \<and> diff v = Num (a - e)
            \<and> expected_shown v = trunc e \<and> actual_shown v = trunc a
            \<and> projection v = (if 0 < e then Some (df_bal e) else None)"
proof -
  obtain c n where "compare_shortfall L (Num e) (Num a) = Inr (Num (a - e), c, n)"
    using compare_shortfall_Num by blast
  then show ?thesis
    using assms by (simp add: shortfall_section_def)
qed

lemma projection_of_Some:
  "projection_of x = Inr (Some t) \<Longrightarrow> \<exists>q. x = Num q \<and> 0 < q \<and> t = df_bal q"
  by (cases x) (auto split: if_splits)

lemma shortfall_section_projection:
  assumes "shortfall_section L row = Inr (Some v)" and "projection v = Some t"
  shows "\<exists>q. row ShortfallExpected = Some (Num q) \<and> 0 < q \<and> t = df_bal q"
  using assms
  by (auto simp add: shortfall_section_def split: option.splits sum.splits prod.splits
           dest!: projection_of_Some)

lemma traverse_Inr:
  "traverse f xs = Inr ys \<Longrightarrow> list_all2 (\<lambda>x y. f x = Inr y) xs ys"
  by (induction xs arbitrary: ys) (auto split: sum.splits)

lemma traverse_length: "traverse f xs = Inr ys \<Longrightarrow> length ys = length xs"
  by (drule traverse_Inr) (simp add: list_all2_lengthD)

lemma traverse_nth:
  "traverse f xs = Inr ys \<Longrightarrow> i < length xs \<Longrightarrow> f (xs ! i) = Inr (ys ! i)"
  by (drule traverse_Inr) (auto dest: list_all2_nthD)

lemma traverse_getitem:
  "traverse (\<lambda>r. getitem r c) xs = Inr ys \<Longrightarrow> map Some ys = map (\<lambda>r. r c) xs"
  by (induction xs arbitrary: ys) (auto simp add: getitem_def split: sum.splits option.splits)

lemma div_columns_length: "div_columns fd a b = Inr qs \<Longrightarrow> length qs = length (rows fd)"
  by (auto simp add: div_columns_def traverse_length split: if_splits)

lemma chart_df_years:
  assumes "chart_df fd = Inr out"
  shows "map (\<lambda>t. Some (fst t)) out = map (\<lambda>r. r BaseYear) (rows fd)"
proof -
  from assms obtain rr cr pr ys where
    rr: "div_columns fd Reserve MinReserve = Inr rr" and
    cr: "div_columns fd EvalReserveTotal ContinuingLiabilityReserve = Inr cr" and
    pr: "div_columns fd ContributionPaid ContributionAssessed = Inr pr" and
    ys: "traverse (\<lambda>r. getitem r BaseYear) (rows fd) = Inr ys" and
    out: "out = zip ys (zip rr (zip cr pr))"
    by (auto simp add: chart_df_def split: sum.splits if_splits)
  have "length (zip rr (zip cr pr)) = length ys"
    using div_columns_length [OF rr] div_columns_length [OF cr] div_columns_length [OF pr]
          traverse_length [OF ys] by simp
  then have "map fst out = ys"
    by (simp add: out)
  moreover have "map (\<lambda>t. Some (fst t)) out = map Some (map fst out)"
    by simp
  ultimately have "map (\<lambda>t. Some (fst t)) out = map Some ys"
    by (simp only:)
  then show ?thesis
    using traverse_getitem [OF ys] by simp
qed

lemma firm_data_rows:
  assumes "firm_data raw_df row = Inr fd"
  shows "\<exists>c v. c \<in> {BizNo, FirmName} \<and> row c = Some v \<and> columns fd = columns raw_df
       \<and> rows fd = filter (\<lambda>r. case r c of None \<Rightarrow> False | Some x \<Rightarrow> cell_eq x v) (rows raw_df)"
  using assms
  by (auto simp add: firm_data_def select_eq_def getitem_def split: if_splits option.splits)

lemma div_columns_nth:
  assumes "div_columns fd a b = Inr qs" and "i < length (rows fd)"
  shows "length qs = length (rows fd)
     \<and> (\<exists>x y. (rows fd ! i) a = Some x \<and> (rows fd ! i) b = Some y \<and> cell_div x y = Inr (qs ! i))"
proof -
  let ?f = "\<lambda>r. case getitem r a of
                            Inl e \<Rightarrow> Inl e
                          | Inr x \<Rightarrow> (case getitem r b of Inl e \<Rightarrow> Inl e | Inr y \<Rightarrow> cell_div x y)"
  from assms(1) have t: "traverse ?f (rows fd) = Inr qs"
    by (simp add: div_columns_def split: if_splits)
  from traverse_nth [OF t assms(2)] traverse_length [OF t]
  show ?thesis
    by (auto simp add: getitem_def split: option.splits sum.splits)
qed

lemma filter_hd_find:
  assumes "list_all2 R xs ys" and "filter Q ys = y # rest"
    and "\<And>x y. R x y \<Longrightarrow> Q y = P x"
  shows "\<exists>x. find P xs = Some x \<and> R x y"
  using assms(1,2)
proof (induction xs ys rule: list_all2_induct)
  case Nil
  then show ?case by simp
next
  case (Cons x xs y' ys)
  then show ?case
    using assms(3) [of x y'] by (auto split: if_splits)
qed

lemma add_final_judgement_rows:
  assumes "add_final_judgement found = Inr judged"
  shows "list_all2 (\<lambda>r r'. \<exists>j. final_judgement r = Inr j \<and> r' = r(FinalJudgement \<mapsto> Num (of_int j)))
           (rows found) (rows judged)"
proof -
  let ?f = "\<lambda>r. case final_judgement r of
                            Inl e \<Rightarrow> Inl e
                          | Inr j \<Rightarrow> Inr (r(FinalJudgement \<mapsto> Num (of_int j)))"
  from assms have "traverse ?f (rows found) = Inr (rows judged)"
    by (auto simp add: add_final_judgement_def split: sum.splits)
  from traverse_Inr [OF this] show ?thesis
    by (rule list_all2_mono) (auto split: sum.splits)
qed

lemma result_table_first:
  assumes "result_table L df company show_risk_only = Inr result" and "rows result = r0 # others"
  shows "\<exists>found r j. search L df company = Inr found
      \<and> find (\<lambda>r. show_risk_only \<longrightarrow> final_judgement r = Inr RISK) (rows found) = Some r
      \<and> final_judgement r = Inr j \<and> r0 = r(FinalJudgement \<mapsto> Num (of_int j))"
proof -
  from assms(1) obtain found judged where
    s: "search L df company = Inr found" and
    j: "add_final_judgement found = Inr judged" and
    r: "result = risk_only show_risk_only judged"
    by (auto simp add: result_table_def split: sum.splits)
  let ?Q = "\<lambda>r'. show_risk_only \<longrightarrow> (case r' FinalJudgement of None \<Rightarrow> False | Some v \<Rightarrow> cell_eq v (Num 0))"
  have "filter ?Q (rows judged) = r0 # others"
    using assms(2) r by (cases show_risk_only) (simp_all add: risk_only_def)
  moreover have "?Q y = (show_risk_only \<longrightarrow> final_judgement x = Inr RISK)"
    if "\<exists>j. final_judgement x = Inr j \<and> y = x(FinalJudgement \<mapsto> Num (of_int j))" for x y
    using that by (auto simp add: cell_eq_def RISK_def)
  ultimately have "\<exists>x. find (\<lambda>r. show_risk_only \<longrightarrow> final_judgement r = Inr RISK) (rows found) = Some x
       \<and> (\<exists>j. final_judgement x = Inr j \<and> r0 = x(FinalJudgement \<mapsto> Num (of_int j)))"
    by (rule filter_hd_find [OF add_final_judgement_rows [OF j]])
  then show ?thesis
    using s by blast
qed

section \<open>Final judgement\<close>

text \<open>
  C1. For every probability \<open>p_risk\<close> in [0,1] the judgement is RISK if and only if
  \<open>p_risk \<ge> 0.70\<close> and NORMAL otherwise; at 0.70 it is RISK and at 0.6999 it is NORMAL.
\<close>

theorem final_judgement_threshold:
  assumes "r PRisk = Some (Num p)" and "0 \<le> p" and "p \<le> 1"
  shows "(final_judgement r = Inr RISK \<longleftrightarrow> p \<ge> 7 / 10)
       \<and> (final_judgement r = Inr NORMAL \<longleftrightarrow> \<not> p \<ge> 7 / 10)
       \<and> final_judgement [PRisk \<mapsto> Num (70 / 100)] = Inr RISK
       \<and> final_judgement [PRisk \<mapsto> Num (6999 / 10000)] = Inr NORMAL"
  using assms by (simp add: final_judgement_def getitem_def RISK_def NORMAL_def)

theorem final_judgement_threshold_witness:
  "final_judgement [PRisk \<mapsto> Num (85 / 100)] = Inr RISK
   \<and> final_judgement [PRisk \<mapsto> Num (1 / 4)] = Inr NORMAL"
  using final_judgement_threshold [of "[PRisk \<mapsto> Num (85 / 100)]" "85 / 100"]
        final_judgement_threshold [of "[PRisk \<mapsto> Num (1 / 4)]" "1 / 4"]
  by simp

text \<open>
  C9 (as amended). The judgement has no range check and no error of its own: for every
  numeric \<open>p_risk\<close>, also outside [0,1], it returns RISK when \<open>p_risk \<ge> 0.70\<close> and
  NORMAL otherwise; NaN and minus infinity give NORMAL, plus infinity gives RISK; only
  a text cell fails, with Python's TypeError.
\<close>

theorem final_judgement_no_range_check:
  "final_judgement (r(PRisk \<mapsto> Num p)) = Inr (if 7 / 10 \<le> p then RISK else NORMAL)
   \<and> final_judgement (r(PRisk \<mapsto> NaN)) = Inr NORMAL
   \<and> final_judgement (r(PRisk \<mapsto> PInf)) = Inr RISK
   \<and> final_judgement (r(PRisk \<mapsto> NInf)) = Inr NORMAL
   \<and> final_judgement (r(PRisk \<mapsto> Str s)) = Inl TypeError"
  by (simp add: final_judgement_def getitem_def RISK_def NORMAL_def)

text \<open>
  C9 as stated fails: 1.5 and -0.2 lie outside [0,1], and the judgement returns a
  verdict for both instead of failing.
\<close>

theorem final_judgement_out_of_range_counterexample:
  "final_judgement [PRisk \<mapsto> Num (3 / 2)] = Inr RISK
   \<and> final_judgement [PRisk \<mapsto> Num (- 1 / 5)] = Inr NORMAL"
  by (simp add: final_judgement_def getitem_def RISK_def NORMAL_def)

section \<open>Rebalancing projection\<close>



section \<open>Shortfall comparison\<close>


text \<open>
  C6. A projection is shown only for an expected shortfall that is a number greater
  than 0, and it is the projection of that amount; with numeric shortfalls the section
  is shown, and it has no projection exactly when the expected shortfall is 0 or less.
\<close>

theorem projection_only_for_positive_expected:
  "(\<forall>v t. shortfall_section L row = Inr (Some v) \<and> projection v = Some t \<longrightarrow>
       (\<exists>q. row ShortfallExpected = Some (Num q) \<and> 0 < q \<and> t = df_bal q))
   \<and> (\<forall>q a. row ShortfallExpected = Some (Num q) \<and> row ShortfallActual = Some (Num a) \<longrightarrow>
       (\<exists>v. shortfall_section L row = Inr (Some v) \<and> (projection v = None \<longleftrightarrow> q \<le> 0)))"
proof -
  have a: "\<exists>q. row ShortfallExpected = Some (Num q) \<and> 0 < q \<and> t = df_bal q"
    if "shortfall_section L row = Inr (Some v) \<and> projection v = Some t" for v t
    using that shortfall_section_projection by blast
  have b: "\<exists>v. shortfall_section L row = Inr (Some v) \<and> (projection v = None \<longleftrightarrow> q \<le> 0)"
    if h: "row ShortfallExpected = Some (Num q) \<and> row ShortfallActual = Some (Num a)" for q a
  proof -
    obtain v where "shortfall_section L row = Inr (Some v)"
      and "projection v = (if 0 < q then Some (df_bal q) else None)"
      using shortfall_section_Num [of row q a L] h by auto
    then show ?thesis by (auto split: if_splits)
  qed
  show ?thesis using a b by blast
qed

theorem projection_only_for_positive_expected_witness:
  "(\<exists>v. shortfall_section example_lib (example_row ''101'' ''Alpha'' (9 / 10) 1000 1500) = Inr (Some v)
        \<and> projection v = Some (df_bal 1000))
   \<and> (\<exists>v. shortfall_section example_lib (example_row ''202'' ''Beta'' (1 / 5) 0 0) = Inr (Some v)
        \<and> projection v = None)
   \<and> (\<exists>v. shortfall_section example_lib (example_row ''404'' ''Gamma'' (1 / 5) (- 30) 0) = Inr (Some v)
        \<and> projection v = None)"
  using projection_only_for_positive_expected [of example_lib "example_row ''101'' ''Alpha'' (9 / 10) 1000 1500"]
        projection_only_for_positive_expected [of example_lib "example_row ''202'' ''Beta'' (1 / 5) 0 0"]
        projection_only_for_positive_expected [of example_lib "example_row ''404'' ''Gamma'' (1 / 5) (- 30) 0"]
  by (simp add: example_row_def) force



section \<open>Yearly indicator trend\<close>

text \<open>
  C4 (as amended). The trend keeps the rows of the entity in the order of the yearly
  file and does not sort them: the rows of \<open>firm_data\<close> are the matching rows of the
  file in file order, and the years of the chart are the years of these rows in the
  same order. The chart is in ascending year order exactly when the file lists the
  entity's rows so.
\<close>

theorem trend_keeps_file_order:
  assumes "firm_data raw_df row = Inr fd" and "chart_df fd = Inr out"
  shows "(\<exists>c v. rows fd = filter (\<lambda>r. case r c of None \<Rightarrow> False | Some x \<Rightarrow> cell_eq x v)
                                 (rows raw_df))
       \<and> map (\<lambda>t. Some (fst t)) out = map (\<lambda>r. r BaseYear) (rows fd)"
  using firm_data_rows [OF assms(1)] chart_df_years [OF assms(2)] by blast

theorem trend_keeps_file_order_witness:
  "firm_data example_raw_df [BizNo \<mapsto> Str ''101'', FirmName \<mapsto> Str ''Alpha''] = Inr example_fd
   \<and> chart_df example_fd = Inr example_chart
   \<and> map (\<lambda>t. Some (fst t)) example_chart = [Some (Num 2016), Some (Num 2014), Some (Num 2015)]
   \<and> map (\<lambda>r. r BaseYear) (rows example_fd) = [Some (Num 2016), Some (Num 2014), Some (Num 2015)]"
proof -
  have h1: "firm_data example_raw_df [BizNo \<mapsto> Str ''101'', FirmName \<mapsto> Str ''Alpha''] = Inr example_fd"
    by (simp add: example_defs trend_defs)
  have h2: "chart_df example_fd = Inr example_chart"
    by (simp add: example_defs trend_defs)
  have "map (\<lambda>r. r BaseYear) (rows example_fd) = [Some (Num 2016), Some (Num 2014), Some (Num 2015)]"
    by (simp add: example_defs)
  then show ?thesis
    using h1 h2 trend_keeps_file_order [OF h1 h2] by simp
qed

text \<open>
  C4 as stated fails: the file lists entity 101 with the years 2016, 2014, 2015, and
  the chart has them in this order, not as 2014, 2015, 2016.
\<close>

theorem trend_not_sorted_counterexample:
  "trend_section example_lib example_raw [BizNo \<mapsto> Str ''101'', FirmName \<mapsto> Str ''Alpha''] =
     Inr (Chart [(Num 2016, Num (9 / 10), Num (9 / 10), Num 1),
                 (Num 2014, Num (1 / 2), Num (1 / 2), Num 1),
                 (Num 2015, PInf, Num (7 / 10), Num 1)])
   \<and> load_raw_data example_lib example_raw = Inr example_raw_df"
  by (simp add: example_defs trend_defs)

text \<open>
  C5. Every row of \<open>firm_data\<close> gives one row of the chart, with the year and exactly
  three ratios: reserve over minimum reserve, evaluated reserve total over continuing
  liability reserve, contribution paid over contribution assessed; for numbers with a
  denominator other than 0 the ratio is their quotient.
\<close>

theorem chart_df_ratios:
  assumes "chart_df fd = Inr out" and "i < length (rows fd)"
  shows "length out = length (rows fd)
     \<and> (\<exists>year reserve min_reserve eval_total liability paid assessed
           reserve_ratio compliance_ratio payment_ratio.
          (rows fd ! i) BaseYear = Some year
        \<and> (rows fd ! i) Reserve = Some reserve
        \<and> (rows fd ! i) MinReserve = Some min_reserve
        \<and> (rows fd ! i) EvalReserveTotal = Some eval_total
        \<and> (rows fd ! i) ContinuingLiabilityReserve = Some liability
        \<and> (rows fd ! i) ContributionPaid = Some paid
        \<and> (rows fd ! i) ContributionAssessed = Some assessed
        \<and> cell_div reserve min_reserve = Inr reserve_ratio
        \<and> cell_div eval_total liability = Inr compliance_ratio
        \<and> cell_div paid assessed = Inr payment_ratio
        \<and> out ! i = (year, reserve_ratio, compliance_ratio, payment_ratio))
     \<and> (\<forall>a b. b \<noteq> 0 \<longrightarrow> cell_div (Num a) (Num b) = Inr (Num (a / b)))"
proof -
  from assms(1) obtain rr cr pr ys where
    rr: "div_columns fd Reserve MinReserve = Inr rr" and
    cr: "div_columns fd EvalReserveTotal ContinuingLiabilityReserve = Inr cr" and
    pr: "div_columns fd ContributionPaid ContributionAssessed = Inr pr" and
    ys: "traverse (\<lambda>r. getitem r BaseYear) (rows fd) = Inr ys" and
    out: "out = zip ys (zip rr (zip cr pr))"
    by (auto simp add: chart_df_def split: sum.splits if_splits)
  note n = assms(2)
  from div_columns_nth [OF rr n] div_columns_nth [OF cr n] div_columns_nth [OF pr n]
       traverse_nth [OF ys n] traverse_length [OF ys]
  show ?thesis
    using n by (auto simp add: out getitem_def split: option.splits)
qed

theorem chart_df_ratios_witness:
  "chart_df example_fd = Inr example_chart
   \<and> (1::nat) < length (rows example_fd)
   \<and> length example_chart = length (rows example_fd)
   \<and> example_chart ! 1 = (Num 2014, Num (50 / 100), Num (50 / 100), Num (5 / 5))
   \<and> cell_div (Num 50) (Num 100) = Inr (Num (50 / 100))"
proof -
  have h1: "chart_df example_fd = Inr example_chart"
    by (simp add: example_defs trend_defs)
  have h2: "(1::nat) < length (rows example_fd)"
    by (simp add: example_defs)
  show ?thesis
    using h1 h2 chart_df_ratios [OF h1 h2] by (simp add: example_defs)
qed

text \<open>
  C8 (as amended). The lookup matches on the registration number whenever the row has
  that field, blank or not, and on the name only when the row has no such field; a
  blank (NaN) registration number matches no row of the yearly file.
\<close>

theorem firm_data_key:
  "(\<forall>v. row BizNo = Some v \<longrightarrow> firm_data raw_df row = select_eq raw_df BizNo v)
   \<and> (\<forall>v. row BizNo = None \<and> row FirmName = Some v \<longrightarrow>
          firm_data raw_df row = select_eq raw_df FirmName v)
   \<and> (row BizNo = Some NaN \<and> BizNo \<in> set (columns raw_df) \<longrightarrow>
          firm_data raw_df row = Inr (raw_df\<lparr>rows := []\<rparr>))"
proof -
  have a: "firm_data raw_df row = select_eq raw_df BizNo v" if "row BizNo = Some v" for v
    using that by (simp add: firm_data_def getitem_def dom_def)
  have b: "firm_data raw_df row = select_eq raw_df FirmName v"
    if "row BizNo = None \<and> row FirmName = Some v" for v
    using that by (simp add: firm_data_def getitem_def dom_def)
  have "filter (\<lambda>r. case r BizNo of None \<Rightarrow> False | Some x \<Rightarrow> cell_eq x NaN) xs = []" for xs
    by (induction xs) (simp_all add: cell_eq_def split: option.splits)
  then have c: "select_eq raw_df BizNo NaN = Inr (raw_df\<lparr>rows := []\<rparr>)"
    if "BizNo \<in> set (columns raw_df)"
    using that by (simp add: select_eq_def)
  show ?thesis
    using a b c by simp
qed

theorem firm_data_key_witness:
  "firm_data example_raw_df (example_row ''202'' ''Beta'' (1 / 5) 0 0) =
     select_eq example_raw_df BizNo (Str ''202'')
   \<and> firm_data example_raw_df [FirmName \<mapsto> Str ''Beta''] =
     select_eq example_raw_df FirmName (Str ''Beta'')
   \<and> firm_data example_raw_df [BizNo \<mapsto> NaN, FirmName \<mapsto> Str ''Beta''] =
     Inr (example_raw_df\<lparr>rows := []\<rparr>)"
proof -
  have a: "firm_data example_raw_df (example_row ''202'' ''Beta'' (1 / 5) 0 0) =
     select_eq example_raw_df BizNo (Str ''202'')"
    using firm_data_key [of "example_row ''202'' ''Beta'' (1 / 5) 0 0" example_raw_df]
    by (simp add: example_row_def)
  have b: "firm_data example_raw_df [FirmName \<mapsto> Str ''Beta''] =
     select_eq example_raw_df FirmName (Str ''Beta'')"
    using firm_data_key [of "[FirmName \<mapsto> Str ''Beta'']" example_raw_df]
    by simp
  have "BizNo \<in> set (columns example_raw_df)"
    by (simp add: example_raw_df_def example_raw_def)
  then have c: "firm_data example_raw_df [BizNo \<mapsto> NaN, FirmName \<mapsto> Str ''Beta''] =
     Inr (example_raw_df\<lparr>rows := []\<rparr>)"
    using firm_data_key [of "[BizNo \<mapsto> NaN, FirmName \<mapsto> Str ''Beta'']" example_raw_df,
             THEN conjunct2, THEN conjunct2]
    by simp
  from a b c show ?thesis
    by (intro conjI)
qed

text \<open>
  C8 as stated fails: for a row whose registration number is blank the lookup finds
  nothing and does not fall back to the name, although a lookup by that name (the row
  without the field) finds the entity.
\<close>

theorem firm_data_blank_counterexample:
  "trend_section example_lib example_raw [BizNo \<mapsto> NaN, FirmName \<mapsto> Str ''Beta''] = Inr NoData
   \<and> trend_section example_lib example_raw [FirmName \<mapsto> Str ''Beta''] =
        Inr (Chart [(Num 2016, Num (1 / 10), Num (1 / 10), Num 1)])"
  by (simp add: example_defs trend_defs)

section \<open>The detail view is of the first row\<close>

text \<open>
  C10. When the table \<open>result\<close> has a row, the page is the shown table together with the
  detail view of its first row and of no other row; this row is the first row of the
  search result (the first one judged RISK when the checkbox is set), with its
  judgement attached.
\<close>

theorem detail_of_first_row:
  assumes "result_table L df company show_risk_only = Inr result" and "rows result \<noteq> []"
  shows "(\<exists>found r j. search L df company = Inr found
            \<and> find (\<lambda>r. show_risk_only \<longrightarrow> final_judgement r = Inr RISK) (rows found) = Some r
            \<and> final_judgement r = Inr j
            \<and> hd (rows result) = r(FinalJudgement \<mapsto> Num (of_int j)))
       \<and> app L df raw company show_risk_only =
           (case show_cols result of
              Inl e \<Rightarrow> Inl e
            | Inr cols \<Rightarrow>
               (case detail L raw (hd (rows result)) of
                  Inl e \<Rightarrow> Inl e
                | Inr d \<Rightarrow> Inr \<lparr>shown_cols = cols, shown_rows = rows result, detail_of = Some d\<rparr>))"
proof -
  from assms(2) obtain r0 others where rs: "rows result = r0 # others"
    by (cases "rows result") auto
  have first: "\<exists>found r j. search L df company = Inr found
            \<and> find (\<lambda>r. show_risk_only \<longrightarrow> final_judgement r = Inr RISK) (rows found) = Some r
            \<and> final_judgement r = Inr j
            \<and> hd (rows result) = r(FinalJudgement \<mapsto> Num (of_int j))"
    using result_table_first [OF assms(1) rs] by (simp add: rs)
  have page: "app L df raw company show_risk_only =
           (case show_cols result of
              Inl e \<Rightarrow> Inl e
            | Inr cols \<Rightarrow>
               (case detail L raw (hd (rows result)) of
                  Inl e \<Rightarrow> Inl e
                | Inr d \<Rightarrow> Inr \<lparr>shown_cols = cols, shown_rows = rows result, detail_of = Some d\<rparr>))"
    by (simp add: app_def assms(1) rs split: sum.splits)
  from first page show ?thesis
    by (rule conjI)
qed

theorem detail_of_first_row_witness:
  "result_table example_lib example_df ''Alpha'' False = Inr example_result
   \<and> rows example_result \<noteq> []
   \<and> hd (rows example_result) =
         (example_row ''101'' ''Alpha'' (9 / 10) 1000 1500)(FinalJudgement \<mapsto> Num 0)
   \<and> (\<exists>d. app example_lib example_df example_raw ''Alpha'' False =
              Inr \<lparr>shown_cols = [BizNo, FirmName, PRisk, PNormal, FinalJudgement,
                                  ShortfallExpected, ShortfallActual],
                    shown_rows = rows example_result, detail_of = Some d\<rparr>
          \<and> title d = (Str ''Alpha'', Str ''101'')
          \<and> trend_chart d = Chart example_chart)"
proof -
  have h1: "result_table example_lib example_df ''Alpha'' False = Inr example_result"
    by (simp add: result_table_def search_def add_final_judgement_def risk_only_def
          final_judgement_def getitem_def example_lib_def example_df_def example_row_def
          example_result_def)
  have h2: "rows example_result \<noteq> []"
    by (simp add: example_result_def)
  have h3: "hd (rows example_result) =
         (example_row ''101'' ''Alpha'' (9 / 10) 1000 1500)(FinalJudgement \<mapsto> Num 0)"
    by (simp add: example_result_def)
  have c: "show_cols example_result = Inr [BizNo, FirmName, PRisk, PNormal, FinalJudgement,
                                  ShortfallExpected, ShortfallActual]"
    by (simp add: show_cols_def example_result_def example_df_def)
  have t: "trend_section example_lib example_raw
             ((example_row ''101'' ''Alpha'' (9 / 10) 1000 1500)(FinalJudgement \<mapsto> Num 0)) =
           Inr (Chart example_chart)"
    by (simp add: example_defs trend_defs)
  have s: "\<exists>v. shortfall_section example_lib
             ((example_row ''101'' ''Alpha'' (9 / 10) 1000 1500)(FinalJudgement \<mapsto> Num 0)) =
           Inr (Some v)"
    using shortfall_section_Num
            [of "(example_row ''101'' ''Alpha'' (9 / 10) 1000 1500)(FinalJudgement \<mapsto> Num 0)"
                1000 1500 example_lib]
    by (auto simp add: example_row_def)
  have d: "\<exists>d. detail example_lib example_raw
             ((example_row ''101'' ''Alpha'' (9 / 10) 1000 1500)(FinalJudgement \<mapsto> Num 0)) = Inr d
          \<and> title d = (Str ''Alpha'', Str ''101'') \<and> trend_chart d = Chart example_chart"
    using s t by (auto simp add: detail_def getitem_def cell_eq_def example_row_def)
  show ?thesis
    using h1 h2 h3 d detail_of_first_row [OF h1 h2, of example_raw]
    by (auto simp add: c)
qed

end
